theory Spec2Isabelle
  imports Main "HOL-Library.Sublist"
begin

section \<open>MQTT status monitor (src/App.js)\<close>

text \<open>
  The component \<open>App\<close> keeps five pieces of React state (\<open>ip\<close>, \<open>topic\<close>,
  \<open>connected\<close>, \<open>statusLog\<close>, \<open>permissionGranted\<close>) and one ref (\<open>clientRef\<close>). Its
  functions are embedded as functions on a record of that state. Everything the component
  does to the outside (alert dialogues, scheduled notifications, calls into the MQTT
  library) is appended to a trace, \<open>effects\<close>, in the order the code performs it.

  JavaScript strings are modelled as \<open>string\<close>; characters outside ASCII are written as the
  bytes of their UTF-8 encoding, as they stand in the source file.
\<close>

subsection \<open>String constants of the source\<close>

definition emoji_siren :: string where
  "emoji_siren = [CHR 0xF0, CHR 0x9F, CHR 0x9A, CHR 0xA8]"

definition emoji_check :: string where
  "emoji_check = [CHR 0xE2, CHR 0x9C, CHR 0x85]"

definition emoji_antenna :: string where
  "emoji_antenna = [CHR 0xF0, CHR 0x9F, CHR 0x93, CHR 0xA1]"

definition emoji_cross :: string where
  "emoji_cross = [CHR 0xE2, CHR 0x9D, CHR 0x8C]"

definition emoji_envelope :: string where
  "emoji_envelope = [CHR 0xF0, CHR 0x9F, CHR 0x93, CHR 0xA9]"

definition emoji_warning :: string where
  "emoji_warning = [CHR 0xE2, CHR 0x9A, CHR 0xA0, CHR 0xEF, CHR 0xB8, CHR 0x8F]"

definition emoji_plug :: string where
  "emoji_plug = [CHR 0xF0, CHR 0x9F, CHR 0x94, CHR 0x8C]"

subsection \<open>Values produced by \<open>JSON.parse\<close>\<close>

text \<open>
  \<open>JSON.parse\<close> returns \<open>null\<close>, a boolean, a number, a string, an array or a plain
  object. Numbers are IEEE doubles in JavaScript; their type is left as the parameter
  \<open>'n\<close>, and the two things the handler observes of a number (whether it is falsy, and its
  text in a template literal) are taken from the runtime below. An object lists its
  properties in the order of the text; where a key is repeated the last one counts.
\<close>

datatype 'n json =
    JNull
  | JBool bool
  | JNum 'n
  | JStr string
  | JArr "'n json list"
  | JObj "(string \<times> 'n json) list"

datatype js_error = SyntaxError | TypeError

text \<open>
  What the source uses of the JavaScript runtime and of the MQTT library:
  \<open>JSON.parse\<close> (\<open>None\<close> when it throws a \<open>SyntaxError\<close>), for numbers the conversion to
  a string and the test for \<open>0\<close>, \<open>-0\<close>, and whether \<open>mqtt.connect\<close> returns a client
  for a broker URL; where it does not, it throws (on a URL it cannot parse, for one).
\<close>

record 'n js_runtime =
  JSON_parse :: "string \<Rightarrow> 'n json option"
  Number_toString :: "'n \<Rightarrow> string"
  Number_isZero :: "'n \<Rightarrow> bool"
  mqtt_connect_returns :: "string \<Rightarrow> bool"

text \<open>
  \<open>data.name\<close> for a parsed value \<open>data\<close> and a name that no built-in prototype defines
  (\<open>status\<close> and \<open>stationId\<close> are such names): reading a property of \<open>null\<close> throws a
  \<open>TypeError\<close>; an object gives its own property or \<open>undefined\<close> (\<open>None\<close>); every other
  value gives \<open>undefined\<close>.
\<close>

fun get_prop :: "'n json \<Rightarrow> string \<Rightarrow> js_error + 'n json option" where
  "get_prop JNull name = Inl TypeError"
| "get_prop (JObj kvs) name = Inr (map_of (rev kvs) name)"
| "get_prop _ name = Inr None"

text \<open>Truthiness, as \<open>||\<close> tests it; \<open>None\<close> is \<open>undefined\<close>.\<close>

fun truthy :: "'n js_runtime \<Rightarrow> 'n json option \<Rightarrow> bool" where
  "truthy rt None = False"
| "truthy rt (Some JNull) = False"
| "truthy rt (Some (JBool b)) = b"
| "truthy rt (Some (JNum n)) = (\<not> Number_isZero rt n)"
| "truthy rt (Some (JStr s)) = (s \<noteq> [])"
| "truthy rt (Some (JArr xs)) = True"
| "truthy rt (Some (JObj kvs)) = True"

fun join :: "string \<Rightarrow> string list \<Rightarrow> string" where
  "join sep [] = []"
| "join sep [x] = x"
| "join sep (x # y # ys) = x @ sep @ join sep (y # ys)"

text \<open>
  The conversion of a value to a string inside a template literal. An array joins the
  texts of its elements with commas, \<open>null\<close> elements giving the empty text. An object
  gives \<open>[object Object]\<close> through \<open>Object.prototype.toString\<close>, unless it has an own
  property \<open>toString\<close>: a parsed value is never callable, the inherited \<open>valueOf\<close> returns
  the object itself, and the conversion throws a \<open>TypeError\<close>.
\<close>

fun ToString :: "'n js_runtime \<Rightarrow> 'n json \<Rightarrow> string option" where
  "ToString rt JNull = Some ''null''"
| "ToString rt (JBool b) = Some (if b then ''true'' else ''false'')"
| "ToString rt (JNum n) = Some (Number_toString rt n)"
| "ToString rt (JStr s) = Some s"
| "ToString rt (JArr xs) =
     map_option (join '','')
       (those (map (\<lambda>x. if x = JNull then Some [] else ToString rt x) xs))"
| "ToString rt (JObj kvs) =
     (if map_of (rev kvs) ''toString'' = None then Some ''[object Object]'' else None)"

subsection \<open>State and effects\<close>

text \<open>
  A client returned by \<open>mqtt.connect\<close> carries the callbacks registered on it; they are
  closures over the values of the render in which \<open>connectToMQTT\<close> ran: \<open>brokerUrl\<close>,
  \<open>topic\<close>, and, through \<open>sendLocalNotification\<close>, \<open>permissionGranted\<close>.
\<close>

record client =
  c_brokerUrl :: string
  c_topic :: string
  c_permissionGranted :: bool

datatype effect =
    Alert_alert string string
  | ScheduleNotification string string
  | MqttConnect string
  | Subscribe nat string
  | ClientEnd nat

record app =
  ip :: string
  topic :: string
  connected :: bool
  statusLog :: "string list"
  clientRef :: "nat option"
  permissionGranted :: bool
  clients :: "client list"
  effects :: "effect list"

definition init :: app where
  "init = \<lparr>ip = [], topic = ''status'', connected = False, statusLog = [],
     clientRef = None, permissionGranted = False, clients = [], effects = []\<rparr>"

definition emit :: "effect \<Rightarrow> app \<Rightarrow> app" where
  "emit e st = st\<lparr>effects := effects st @ [e]\<rparr>"

text \<open>The \<open>useEffect\<close> at mount, when \<open>requestPermissionsAsync\<close> resolves.\<close>

definition permission_result :: "string \<Rightarrow> app \<Rightarrow> app" where
  "permission_result status st =
     (let st1 = st\<lparr>permissionGranted := (status = ''granted'')\<rparr>
      in if status \<noteq> ''granted''
         then emit (Alert_alert ''Permission denied''
                ''Local notifications will not be shown.'') st1
         else st1)"

definition log :: "string \<Rightarrow> app \<Rightarrow> app" where
  "log message st = st\<lparr>statusLog := statusLog st @ [message]\<rparr>"

definition sendLocalNotification :: "client \<Rightarrow> string \<Rightarrow> app \<Rightarrow> app" where
  "sendLocalNotification c message st =
     (if \<not> c_permissionGranted c then emit (Alert_alert ''Notification'' message) st
      else emit (ScheduleNotification (emoji_siren @ '' Device Offline'') message) st)"

text \<open>
  \<open>connectToMQTT\<close> calls \<open>mqtt.connect\<close> outside any \<open>try\<close>: when the library throws, the
  exception leaves the function (\<open>None\<close>) before the ref is set or a callback is
  registered, and nothing of the state has changed.
\<close>

definition connectToMQTT :: "'n js_runtime \<Rightarrow> app \<Rightarrow> app option" where
  "connectToMQTT rt st =
     (if ip st = [] \<or> topic st = []
      then Some (emit (Alert_alert ''Error'' ''Please enter both IP address and topic'') st)
      else
        let brokerUrl = ''ws://'' @ ip st @ '':9001/mqtt''
        in if \<not> mqtt_connect_returns rt brokerUrl then None
           else
             let st1 = emit (MqttConnect brokerUrl) st;
                 c = \<lparr>c_brokerUrl = brokerUrl, c_topic = topic st,
                      c_permissionGranted = permissionGranted st\<rparr>
             in Some (st1\<lparr>clientRef := Some (length (clients st)),
                        clients := clients st @ [c]\<rparr>))"

text \<open>The callbacks of client number \<open>i\<close>, whose closure is \<open>c\<close>.\<close>

definition on_connect :: "nat \<Rightarrow> client \<Rightarrow> app \<Rightarrow> app" where
  "on_connect i c st =
     emit (Subscribe i (c_topic c))
       (log (emoji_check @ '' Connected to '' @ c_brokerUrl c) (st\<lparr>connected := True\<rparr>))"

definition on_subscribed :: "client \<Rightarrow> string option \<Rightarrow> app \<Rightarrow> app" where
  \<open>on_subscribed c err st =
     (case err of
        None \<Rightarrow> log (emoji_antenna @ '' Subscribed to "'' @ c_topic c @ ''"'') st
      | Some err_message \<Rightarrow> log (emoji_cross @ '' Subscription failed: '' @ err_message) st)\<close>

text \<open>The template literals of the message handler.\<close>

definition received_entry :: "string \<Rightarrow> string \<Rightarrow> string" where
  "received_entry tp msg = emoji_envelope @ '' '' @ tp @ '': '' @ msg"

definition offline_notice :: "string \<Rightarrow> string" where
  \<open>offline_notice s = ''Device "'' @ s @ ''" is offline''\<close>

definition offline_entry :: "string \<Rightarrow> string" where
  \<open>offline_entry s = emoji_siren @ '' "'' @ s @ ''" is offline''\<close>

definition invalid_entry :: "string \<Rightarrow> string" where
  "invalid_entry msg = emoji_warning @ '' Invalid message format: '' @ msg"

text \<open>
  The body of the \<open>try\<close> block of the message handler: \<open>Inl\<close> is an exception reaching
  the \<open>catch\<close>. Every exception is raised before the block has had any effect: by
  \<open>JSON.parse\<close>, by reading a property of \<open>null\<close>, or by the first template literal.
\<close>

definition handle_payload :: "'n js_runtime \<Rightarrow> client \<Rightarrow> string \<Rightarrow> app \<Rightarrow> js_error + app" where
  "handle_payload rt c msg st =
     (case JSON_parse rt msg of
        None \<Rightarrow> Inl SyntaxError
      | Some data \<Rightarrow>
          (case get_prop data ''status'' of
             Inl e \<Rightarrow> Inl e
           | Inr status \<Rightarrow>
               if status = Some (JStr ''offline'') then
                 (case get_prop data ''stationId'' of
                    Inl e \<Rightarrow> Inl e
                  | Inr sid \<Rightarrow>
                      let stationId = (if truthy rt sid then the sid
                                       else JStr ''Unknown Station'')
                      in (case ToString rt stationId of
                            None \<Rightarrow> Inl TypeError
                          | Some s \<Rightarrow>
                              Inr (log (offline_entry s)
                                (sendLocalNotification c (offline_notice s) st))))
               else Inr st))"

definition on_message :: "'n js_runtime \<Rightarrow> client \<Rightarrow> string \<Rightarrow> string \<Rightarrow> app \<Rightarrow> app" where
  "on_message rt c tp msg st =
     (let st1 = log (received_entry tp msg) st
      in case handle_payload rt c msg st1 of
           Inr st2 \<Rightarrow> st2
         | Inl e \<Rightarrow> log (invalid_entry msg) st1)"

definition on_error :: "string \<Rightarrow> app \<Rightarrow> app" where
  "on_error err_message st = log (emoji_cross @ '' MQTT Error: '' @ err_message) st"

definition on_close :: "client \<Rightarrow> app \<Rightarrow> app" where
  "on_close c st =
     log (emoji_plug @ '' Disconnected from '' @ c_brokerUrl c) (st\<lparr>connected := False\<rparr>)"

definition resetConnection :: "app \<Rightarrow> app" where
  "resetConnection st =
     (let st1 = (case clientRef st of
                   Some i \<Rightarrow> (emit (ClientEnd i) st)\<lparr>clientRef := None\<rparr>
                 | None \<Rightarrow> st)
      in st1\<lparr>connected := False, statusLog := [], ip := [], topic := ''mqtt/status''\<rparr>)"

subsection \<open>Events\<close>

text \<open>
  What can happen to the component: the user edits a field or presses a button (the
  Connect button is disabled while \<open>connected\<close> holds), the permission request resolves,
  or the MQTT library calls a callback of one of the clients created so far. An exception
  that leaves \<open>connectToMQTT\<close> leaves the state as it was.
\<close>

datatype event =
    ChangeIp string
  | ChangeTopic string
  | PressConnect
  | PressDisconnect
  | PermissionResult string
  | ClientConnect nat
  | ClientSubscribed nat "string option"
  | ClientMessage nat string string
  | ClientError nat string
  | ClientClose nat

fun step :: "'n js_runtime \<Rightarrow> event \<Rightarrow> app \<Rightarrow> app" where
  "step rt (ChangeIp s) st = st\<lparr>ip := s\<rparr>"
| "step rt (ChangeTopic s) st = st\<lparr>topic := s\<rparr>"
| "step rt PressConnect st =
     (if connected st then st
      else case connectToMQTT rt st of None \<Rightarrow> st | Some st' \<Rightarrow> st')"
| "step rt PressDisconnect st = resetConnection st"
| "step rt (PermissionResult status) st = permission_result status st"
| "step rt (ClientConnect i) st =
     (if i < length (clients st) then on_connect i (clients st ! i) st else st)"
| "step rt (ClientSubscribed i err) st =
     (if i < length (clients st) then on_subscribed (clients st ! i) err st else st)"
| "step rt (ClientMessage i tp msg) st =
     (if i < length (clients st) then on_message rt (clients st ! i) tp msg st else st)"
| "step rt (ClientError i err_message) st =
     (if i < length (clients st) then on_error err_message st else st)"
| "step rt (ClientClose i) st =
     (if i < length (clients st) then on_close (clients st ! i) st else st)"

fun run :: "'n js_runtime \<Rightarrow> event list \<Rightarrow> app \<Rightarrow> app" where
  "run rt [] st = st"
| "run rt (e # es) st = run rt es (step rt e st)"

subsection \<open>A runtime and a session for concrete evaluation\<close>

text \<open>
  The examples below run the handlers on concrete payload texts. Their runtime has integer
  numbers, and its \<open>JSON_parse\<close> is the table of what \<open>JSON.parse\<close> returns on the texts
  the examples use; it is applied to those texts only, and to \<open>not json\<close>, which
  \<open>JSON.parse\<close> rejects. Its \<open>mqtt.connect\<close> returns a client for the two broker URLs
  of the examples.
\<close>

fun nat_text :: "nat \<Rightarrow> string" where
  "nat_text n =
     (if n < 10 then [char_of (48 + n)]
      else nat_text (n div 10) @ [char_of (48 + n mod 10)])"

declare nat_text.simps [simp del]

definition int_text :: "int \<Rightarrow> string" where
  "int_text k = (if k < 0 then ''-'' @ nat_text (nat (- k)) else nat_text (nat k))"

definition example_payloads :: "(string \<times> int json) list" where
  \<open>example_payloads =
     [(''null'', JNull),
      (''{"status":"offline","stationId":"Pump-3"}'',
         JObj [(''status'', JStr ''offline''), (''stationId'', JStr ''Pump-3'')]),
      (''{"status":"offline","stationId":""}'',
         JObj [(''status'', JStr ''offline''), (''stationId'', JStr [])]),
      (''{"status":"offline","stationId":true}'',
         JObj [(''status'', JStr ''offline''), (''stationId'', JBool True)]),
      (''{"status":"online","stationId":"Pump-3"}'',
         JObj [(''status'', JStr ''online''), (''stationId'', JStr ''Pump-3'')])]\<close>

definition example_brokers :: "string list" where
  "example_brokers = [''ws://10.0.0.5:9001/mqtt'', ''ws://10.0.0.6:9001/mqtt'']"

definition example_runtime :: "int js_runtime" where
  "example_runtime =
     \<lparr>JSON_parse = map_of example_payloads, Number_toString = int_text,
      Number_isZero = (\<lambda>k. k = 0),
      mqtt_connect_returns = (\<lambda>url. url \<in> set example_brokers)\<rparr>"

text \<open>
  The user enters a host, presses Connect, the broker accepts and the subscription is
  acknowledged; the permission request has not been granted.
\<close>

definition example_session :: "event list" where
  "example_session =
     [ChangeIp ''10.0.0.5'', PressConnect, ClientConnect 0, ClientSubscribed 0 None]"

definition example_state :: app where
  "example_state = run example_runtime example_session init"

subsection \<open>An invariant of the trace\<close>

text \<open>
  Every subscribe request in the trace was issued by an existing client, for the topic
  that client captured.
\<close>

definition subscribes_ok :: "app \<Rightarrow> bool" where
  "subscribes_ok st =
     (\<forall>e \<in> set (effects st). case e of
        Subscribe i t \<Rightarrow> i < length (clients st) \<and> c_topic (clients st ! i) = t
      | _ \<Rightarrow> True)"

section \<open>Facts about the parts of the state each function touches\<close>

lemma log_fields:
  "ip (log m st) = ip st" "topic (log m st) = topic st" "connected (log m st) = connected st"
  "statusLog (log m st) = statusLog st @ [m]" "clientRef (log m st) = clientRef st"
  "permissionGranted (log m st) = permissionGranted st" "clients (log m st) = clients st"
  "effects (log m st) = effects st"
  by (simp_all add: log_def)

lemma emit_fields:
  "ip (emit e st) = ip st" "topic (emit e st) = topic st"
  "connected (emit e st) = connected st" "statusLog (emit e st) = statusLog st"
  "clientRef (emit e st) = clientRef st"
  "permissionGranted (emit e st) = permissionGranted st" "clients (emit e st) = clients st"
  "effects (emit e st) = effects st @ [e]"
  by (simp_all add: emit_def)

lemma sendLocalNotification_fields:
  "statusLog (sendLocalNotification c m st) = statusLog st"
  "clients (sendLocalNotification c m st) = clients st"
  "effects (sendLocalNotification c m st) =
     effects st @ [if c_permissionGranted c
                   then ScheduleNotification (emoji_siren @ '' Device Offline'') m
                   else Alert_alert ''Notification'' m]"
  by (simp_all add: sendLocalNotification_def emit_fields)

lemma handle_payload_cases:
  "handle_payload rt c msg st = Inl SyntaxError \<or>
   handle_payload rt c msg st = Inl TypeError \<or>
   handle_payload rt c msg st = Inr st \<or>
   (\<exists>s. handle_payload rt c msg st =
      Inr (log (offline_entry s) (sendLocalNotification c (offline_notice s) st)))"
proof (cases "JSON_parse rt msg")
  case None
  then show ?thesis by (simp add: handle_payload_def)
next
  case (Some data)
  show ?thesis
  proof (cases "get_prop data ''status''")
    case (Inl e)
    with Some show ?thesis by (cases e) (simp_all add: handle_payload_def)
  next
    case status: (Inr status)
    show ?thesis
    proof (cases "status = Some (JStr ''offline'')")
      case False
      with Some status show ?thesis by (simp add: handle_payload_def)
    next
      case True
      show ?thesis
      proof (cases "get_prop data ''stationId''")
        case (Inl e)
        with Some status True show ?thesis by (cases e) (simp_all add: handle_payload_def)
      next
        case (Inr sid)
        with Some status True show ?thesis
          by (auto simp add: handle_payload_def Let_def split: option.splits)
      qed
    qed
  qed
qed

lemma on_message_clients: "clients (on_message rt c tp msg st) = clients st"
  using handle_payload_cases [of rt c msg "log (received_entry tp msg) st"]
  by (auto simp add: on_message_def Let_def log_fields sendLocalNotification_fields)

lemma on_message_log:
  "prefix (statusLog st) (statusLog (on_message rt c tp msg st))"
  using handle_payload_cases [of rt c msg "log (received_entry tp msg) st"]
  by (auto simp add: on_message_def Let_def log_fields sendLocalNotification_fields)

lemma on_message_subscribe:
  "Subscribe i t \<in> set (effects (on_message rt c tp msg st)) \<Longrightarrow>
   Subscribe i t \<in> set (effects st)"
  using handle_payload_cases [of rt c msg "log (received_entry tp msg) st"]
  by (auto simp add: on_message_def Let_def log_fields sendLocalNotification_fields
      split: if_splits)

text \<open>No event removes or changes a client: the list of clients only grows.\<close>

lemma connectToMQTT_clients:
  "connectToMQTT rt st = Some st' \<Longrightarrow> prefix (clients st) (clients st')"
  by (auto simp add: connectToMQTT_def Let_def emit_fields split: if_splits)

lemma connectToMQTT_log:
  "connectToMQTT rt st = Some st' \<Longrightarrow> statusLog st' = statusLog st"
  by (auto simp add: connectToMQTT_def Let_def emit_fields split: if_splits)

lemma resetConnection_clients: "clients (resetConnection st) = clients st"
  by (simp add: resetConnection_def Let_def emit_def split: option.splits)

lemma step_clients: "prefix (clients st) (clients (step rt e st))"
proof (cases e)
  case PressConnect
  then show ?thesis
    by (cases "connectToMQTT rt st") (simp_all add: connectToMQTT_clients)
qed (simp_all add: resetConnection_clients on_message_clients
    permission_result_def on_connect_def on_subscribed_def on_error_def on_close_def
    Let_def emit_fields log_fields split: option.splits)

lemma run_clients: "prefix (clients st) (clients (run rt es st))"
proof (induction es arbitrary: st)
  case Nil
  show ?case by simp
next
  case (Cons e es)
  have "prefix (clients st) (clients (step rt e st))" by (rule step_clients)
  also have "prefix \<dots> (clients (run rt es (step rt e st)))" by (rule Cons.IH)
  finally show ?case by simp
qed

lemma prefix_nth: "prefix xs ys \<Longrightarrow> i < length xs \<Longrightarrow> ys ! i = xs ! i"
  by (auto simp add: prefix_def nth_append)

lemma subscribes_okD:
  "subscribes_ok st \<Longrightarrow> Subscribe i t \<in> set (effects st) \<Longrightarrow>
   i < length (clients st) \<and> c_topic (clients st ! i) = t"
  by (force simp add: subscribes_ok_def)

lemma subscribes_okI:
  assumes "\<And>i t. Subscribe i t \<in> set (effects st) \<Longrightarrow>
     i < length (clients st) \<and> c_topic (clients st ! i) = t"
  shows "subscribes_ok st"
  unfolding subscribes_ok_def
proof
  fix e assume "e \<in> set (effects st)"
  with assms show "case e of
        Subscribe i t \<Rightarrow> i < length (clients st) \<and> c_topic (clients st ! i) = t
      | _ \<Rightarrow> True"
    by (cases e) simp_all
qed

lemma step_subscribe:
  assumes "Subscribe i t \<in> set (effects (step rt e st))"
  shows "Subscribe i t \<in> set (effects st) \<or>
         (e = ClientConnect i \<and> i < length (clients st) \<and> c_topic (clients st ! i) = t)"
proof (cases e)
  case (ClientMessage j tp msg)
  with assms show ?thesis by (auto split: if_splits dest: on_message_subscribe)
next
  case PressConnect
  with assms show ?thesis
    by (auto simp add: connectToMQTT_def Let_def emit_fields split: if_splits)
next
  case PressDisconnect
  with assms show ?thesis
    by (auto simp add: resetConnection_def Let_def emit_def split: option.splits)
next
  case (ClientConnect j)
  with assms show ?thesis
    by (auto simp add: on_connect_def emit_fields log_fields split: if_splits)
qed (use assms in \<open>auto simp add: permission_result_def on_subscribed_def on_error_def
      on_close_def Let_def emit_fields log_fields split: if_splits option.splits\<close>)

lemma step_subscribes_ok:
  assumes "subscribes_ok st"
  shows "subscribes_ok (step rt e st)"
proof (rule subscribes_okI)
  fix i t
  assume "Subscribe i t \<in> set (effects (step rt e st))"
  then have old: "i < length (clients st) \<and> c_topic (clients st ! i) = t"
    using step_subscribe [of i t rt e st] subscribes_okD [OF assms, of i t] by blast
  have p: "prefix (clients st) (clients (step rt e st))" by (rule step_clients)
  from old p have "i < length (clients (step rt e st))"
    using prefix_length_le [OF p] by simp
  moreover from old p have "clients (step rt e st) ! i = clients st ! i"
    by (simp add: prefix_nth)
  ultimately show "i < length (clients (step rt e st)) \<and>
      c_topic (clients (step rt e st) ! i) = t"
    using old by simp
qed

lemma run_subscribes_ok: "subscribes_ok st \<Longrightarrow> subscribes_ok (run rt es st)"
  by (induction es arbitrary: st) (simp_all add: step_subscribes_ok)

lemma init_subscribes_ok: "subscribes_ok init"
  by (simp add: subscribes_ok_def init_def)

lemma example_state_eq:
  \<open>example_state =
     \<lparr>ip = ''10.0.0.5'', topic = ''status'', connected = True,
      statusLog = [emoji_check @ '' Connected to ws://10.0.0.5:9001/mqtt'',
                   emoji_antenna @ '' Subscribed to "status"''],
      clientRef = Some 0, permissionGranted = False,
      clients = [\<lparr>c_brokerUrl = ''ws://10.0.0.5:9001/mqtt'', c_topic = ''status'',
                   c_permissionGranted = False\<rparr>],
      effects = [MqttConnect ''ws://10.0.0.5:9001/mqtt'', Subscribe 0 ''status'']\<rparr>\<close>
  by (simp add: example_state_def example_session_def init_def connectToMQTT_def
      example_runtime_def example_brokers_def on_connect_def on_subscribed_def emit_def
      log_def Let_def)

lemma resetConnection_fields:
  "connected (resetConnection st) = False" "statusLog (resetConnection st) = []"
  "ip (resetConnection st) = []" "topic (resetConnection st) = ''mqtt/status''"
  "clientRef (resetConnection st) = None"
  "permissionGranted (resetConnection st) = permissionGranted st"
  "effects (resetConnection st) =
     effects st @ (case clientRef st of Some i \<Rightarrow> [ClientEnd i] | None \<Rightarrow> [])"
  by (simp_all add: resetConnection_def Let_def emit_def split: option.splits)

lemma example_parse_garbage: "JSON_parse example_runtime ''not json'' = None"
  by (simp add: example_runtime_def example_payloads_def)

lemma example_parse_null: "JSON_parse example_runtime ''null'' = Some JNull"
  by (simp add: example_runtime_def example_payloads_def)

lemma example_parse_pump:
  \<open>JSON_parse example_runtime ''{"status":"offline","stationId":"Pump-3"}'' =
     Some (JObj [(''status'', JStr ''offline''), (''stationId'', JStr ''Pump-3'')])\<close>
  by (simp add: example_runtime_def example_payloads_def)

lemma example_parse_empty_station:
  \<open>JSON_parse example_runtime ''{"status":"offline","stationId":""}'' =
     Some (JObj [(''status'', JStr ''offline''), (''stationId'', JStr [])])\<close>
  by (simp add: example_runtime_def example_payloads_def)

lemma example_parse_true_station:
  \<open>JSON_parse example_runtime ''{"status":"offline","stationId":true}'' =
     Some (JObj [(''status'', JStr ''offline''), (''stationId'', JBool True)])\<close>
  by (simp add: example_runtime_def example_payloads_def)

lemma example_parse_online:
  \<open>JSON_parse example_runtime ''{"status":"online","stationId":"Pump-3"}'' =
     Some (JObj [(''status'', JStr ''online''), (''stationId'', JStr ''Pump-3'')])\<close>
  by (simp add: example_runtime_def example_payloads_def)

lemma example_client:
  "clients example_state ! 0 =
     \<lparr>c_brokerUrl = ''ws://10.0.0.5:9001/mqtt'', c_topic = ''status'',
      c_permissionGranted = False\<rparr>"
  "length (clients example_state) = 1"
  by (simp_all add: example_state_eq)

section \<open>The message handler\<close>

text \<open>
  Claim C1, as the code has it: for every payload whose text fails JSON parsing, the
  message handler appends exactly two log entries, the entry with the raw text followed by
  the invalid-message-format entry, and changes nothing else: it emits no alert.
\<close>

theorem malformed_payload_two_entries:
  "JSON_parse rt msg = None \<Longrightarrow>
   on_message rt c tp msg st =
     st\<lparr>statusLog := statusLog st @ [received_entry tp msg, invalid_entry msg]\<rparr>"
  by (simp add: on_message_def handle_payload_def log_def Let_def)

theorem malformed_payload_two_entries_witness:
  "JSON_parse example_runtime ''not json'' = None \<and>
   on_message example_runtime (clients example_state ! 0) ''status'' ''not json'' example_state =
     example_state\<lparr>statusLog := statusLog example_state @
       [received_entry ''status'' ''not json'', invalid_entry ''not json'']\<rparr>"
  using malformed_payload_two_entries [OF example_parse_garbage] example_parse_garbage
  by simp

text \<open>
  Claim C1 as the specification states it (exactly one log entry) fails: the payload
  \<open>not json\<close> leaves two new entries in the log.
\<close>

theorem malformed_payload_one_entry_counterexample:
  "JSON_parse example_runtime ''not json'' = None \<and>
   statusLog (step example_runtime (ClientMessage 0 ''status'' ''not json'') example_state) =
     statusLog example_state @
       [received_entry ''status'' ''not json'', invalid_entry ''not json''] \<and>
   length (statusLog
     (step example_runtime (ClientMessage 0 ''status'' ''not json'') example_state)) \<noteq>
     length (statusLog example_state) + 1"
  by (simp add: example_client example_parse_garbage on_message_def
      handle_payload_def log_def Let_def)

text \<open>
  Claim C2, as the code has it: for every valid JSON payload whose \<open>status\<close> is the string
  \<open>offline\<close> and whose station id (the payload's \<open>stationId\<close>, or \<open>Unknown Station\<close> when
  that is absent or falsy) has the text \<open>s\<close>, the handler emits exactly one alert with
  the body \<open>Device "s" is offline\<close>, and after it appends the log entry for \<open>s\<close>. The alert
  is a notification titled with the siren and \<open>Device Offline\<close> when permission was
  granted as the connection was made, and an alert dialogue titled \<open>Notification\<close>
  otherwise.
\<close>

theorem offline_payload_one_alert:
  assumes "JSON_parse rt msg = Some data"
    and "get_prop data ''status'' = Inr (Some (JStr ''offline''))"
    and "get_prop data ''stationId'' = Inr sid"
    and "ToString rt (if truthy rt sid then the sid else JStr ''Unknown Station'') = Some s"
  shows "on_message rt c tp msg st =
     st\<lparr>statusLog := statusLog st @ [received_entry tp msg, offline_entry s],
        effects := effects st @
          [if c_permissionGranted c
           then ScheduleNotification (emoji_siren @ '' Device Offline'') (offline_notice s)
           else Alert_alert ''Notification'' (offline_notice s)]\<rparr>"
  using assms
  by (simp add: on_message_def handle_payload_def sendLocalNotification_def log_def
      emit_def Let_def)

theorem offline_payload_one_alert_witness:
  \<open>JSON_parse example_runtime ''{"status":"offline","stationId":"Pump-3"}'' =
     Some (JObj [(''status'', JStr ''offline''), (''stationId'', JStr ''Pump-3'')]) \<and>
   on_message example_runtime (clients example_state ! 0) ''status''
       ''{"status":"offline","stationId":"Pump-3"}'' example_state =
     example_state\<lparr>statusLog := statusLog example_state @
         [received_entry ''status'' ''{"status":"offline","stationId":"Pump-3"}'',
          offline_entry ''Pump-3''],
       effects := effects example_state @
         [Alert_alert ''Notification'' (offline_notice ''Pump-3'')]\<rparr> \<and>
   offline_notice ''Pump-3'' = ''Device "Pump-3" is offline''\<close>
  using offline_payload_one_alert [OF example_parse_pump, of "Some (JStr ''Pump-3'')"
      "''Pump-3''" "clients example_state ! 0" "''status''" example_state]
    example_parse_pump
  by (simp add: example_client offline_notice_def)

text \<open>
  Claim C2 as the specification states it (the alert is titled \<open>Device Offline\<close>) fails:
  on a connection made without notification permission, the one alert the offline
  payload raises is a dialogue titled \<open>Notification\<close>.
\<close>

theorem offline_alert_title_counterexample:
  \<open>JSON_parse example_runtime ''{"status":"offline","stationId":"Pump-3"}'' =
     Some (JObj [(''status'', JStr ''offline''), (''stationId'', JStr ''Pump-3'')]) \<and>
   effects (step example_runtime
       (ClientMessage 0 ''status'' ''{"status":"offline","stationId":"Pump-3"}'')
       example_state) =
     effects example_state @ [Alert_alert ''Notification'' ''Device "Pump-3" is offline''] \<and>
   ''Notification'' \<noteq> ''Device Offline''\<close>
  by (simp add: example_parse_pump example_client on_message_def
      handle_payload_def sendLocalNotification_def log_def emit_def Let_def
      offline_notice_def)

text \<open>
  Claim C3, as the code has it: for every valid JSON payload whose \<open>status\<close> is \<open>offline\<close>,
  the station id in the alert body is \<open>Unknown Station\<close> exactly when the payload's
  \<open>stationId\<close> is absent or falsy (\<open>null\<close>, \<open>false\<close>, a zero number or the empty string).
  Every other \<open>stationId\<close> is used itself, as the text it converts to; a string that is
  not empty is used unchanged. When that conversion throws, no alert is raised.
\<close>

theorem stationId_default_when_falsy:
  assumes "JSON_parse rt msg = Some data"
    and "get_prop data ''status'' = Inr (Some (JStr ''offline''))"
    and "get_prop data ''stationId'' = Inr sid"
  shows "(if sid \<in> {None, Some JNull, Some (JBool False), Some (JStr [])} \<or>
             (\<exists>n. sid = Some (JNum n) \<and> Number_isZero rt n)
          then effects (on_message rt c tp msg st) =
                 effects (sendLocalNotification c (offline_notice ''Unknown Station'') st)
          else (case ToString rt (the sid) of
                  Some s \<Rightarrow> effects (on_message rt c tp msg st) =
                             effects (sendLocalNotification c (offline_notice s) st)
                | None \<Rightarrow> effects (on_message rt c tp msg st) = effects st)) \<and>
         (\<forall>s. sid = Some (JStr s) \<and> s \<noteq> [] \<longrightarrow>
            effects (on_message rt c tp msg st) =
              effects (sendLocalNotification c (offline_notice s) st))"
proof -
  have falsy: "(sid \<in> {None, Some JNull, Some (JBool False), Some (JStr [])} \<or>
      (\<exists>n. sid = Some (JNum n) \<and> Number_isZero rt n)) = (\<not> truthy rt sid)"
  proof (cases sid)
    case None
    then show ?thesis by simp
  next
    case (Some v)
    then show ?thesis by (cases v) auto
  qed
  have run: "effects (on_message rt c tp msg st) =
      (case ToString rt (if truthy rt sid then the sid else JStr ''Unknown Station'') of
         Some s \<Rightarrow> effects (sendLocalNotification c (offline_notice s) st)
       | None \<Rightarrow> effects st)"
    using assms
    by (simp add: on_message_def handle_payload_def sendLocalNotification_def log_def
        emit_def Let_def split: option.splits)
  show ?thesis
    unfolding falsy run by (auto split: option.splits)
qed

theorem stationId_default_when_falsy_witness:
  \<open>JSON_parse example_runtime ''{"status":"offline","stationId":""}'' =
     Some (JObj [(''status'', JStr ''offline''), (''stationId'', JStr [])]) \<and>
   effects (on_message example_runtime (clients example_state ! 0) ''status''
       ''{"status":"offline","stationId":""}'' example_state) =
     effects (sendLocalNotification (clients example_state ! 0)
       (offline_notice ''Unknown Station'') example_state)\<close>
  using stationId_default_when_falsy [OF example_parse_empty_station,
      of "Some (JStr [])" "clients example_state ! 0" "''status''" example_state]
    example_parse_empty_station
  by simp

text \<open>
  Claim C3 as the specification states it (the default is used exactly when \<open>stationId\<close>
  is absent or not a string) fails in both directions: the empty string is a string and is
  replaced by the default, and \<open>true\<close> is not a string and is used, as the text \<open>true\<close>.
\<close>

theorem stationId_default_counterexample:
  \<open>effects (step example_runtime
       (ClientMessage 0 ''status'' ''{"status":"offline","stationId":""}'') example_state) =
     effects example_state @
       [Alert_alert ''Notification'' ''Device "Unknown Station" is offline''] \<and>
   effects (step example_runtime
       (ClientMessage 0 ''status'' ''{"status":"offline","stationId":true}'') example_state) =
     effects example_state @ [Alert_alert ''Notification'' ''Device "true" is offline'']\<close>
  by (simp add: example_parse_empty_station example_parse_true_station
      example_client on_message_def handle_payload_def sendLocalNotification_def log_def
      emit_def Let_def offline_notice_def)

text \<open>
  Claim C4: for every valid JSON payload whose \<open>status\<close> is not the string \<open>offline\<close>
  (the field may be absent, and the payload may be \<open>null\<close>, where reading the field
  throws), the message handler emits no alert: the trace of effects is unchanged.
\<close>

theorem other_status_no_alert:
  assumes "JSON_parse rt msg = Some data"
    and "get_prop data ''status'' \<noteq> Inr (Some (JStr ''offline''))"
  shows "effects (on_message rt c tp msg st) = effects st"
  using assms
  by (cases "get_prop data ''status''")
    (simp_all add: on_message_def handle_payload_def log_def Let_def)

theorem other_status_no_alert_witness:
  \<open>JSON_parse example_runtime ''{"status":"online","stationId":"Pump-3"}'' =
     Some (JObj [(''status'', JStr ''online''), (''stationId'', JStr ''Pump-3'')]) \<and>
   get_prop (JObj [(''status'', JStr ''online''), (''stationId'', JStr ''Pump-3'')] :: int json)
     ''status'' \<noteq> Inr (Some (JStr ''offline'')) \<and>
   effects (on_message example_runtime (clients example_state ! 0) ''status''
       ''{"status":"online","stationId":"Pump-3"}'' example_state) =
     effects example_state\<close>
  using other_status_no_alert [OF example_parse_online,
      of "clients example_state ! 0" "''status''" example_state]
    example_parse_online
  by simp

text \<open>
  Claim C9: on the payload \<open>null\<close>, which is valid JSON, the handler takes the branch of
  malformed payloads: reading \<open>status\<close> of the parsed \<open>null\<close> throws a \<open>TypeError\<close>, the
  \<open>catch\<close> logs the entry \<open>Invalid message format: null\<close> (after the warning sign) behind
  the entry with the raw text, and no alert is emitted: nothing but the log changes.
\<close>

theorem null_payload_is_invalid:
  assumes "JSON_parse rt ''null'' = Some JNull"
  shows "handle_payload rt c ''null'' st' = Inl TypeError \<and>
     on_message rt c tp ''null'' st =
       st\<lparr>statusLog := statusLog st @
         [emoji_envelope @ '' '' @ tp @ '': null'',
          emoji_warning @ '' Invalid message format: null'']\<rparr>"
  using assms
  by (simp add: on_message_def handle_payload_def log_def Let_def received_entry_def
      invalid_entry_def)

theorem null_payload_is_invalid_witness:
  "JSON_parse example_runtime ''null'' = Some JNull \<and>
   handle_payload example_runtime (clients example_state ! 0) ''null'' example_state =
     Inl TypeError \<and>
   statusLog (on_message example_runtime (clients example_state ! 0) ''status'' ''null''
     example_state) =
     statusLog example_state @
       [emoji_envelope @ '' status: null'',
        emoji_warning @ '' Invalid message format: null''] \<and>
   effects (on_message example_runtime (clients example_state ! 0) ''status'' ''null''
     example_state) = effects example_state"
  using null_payload_is_invalid [OF example_parse_null, of "clients example_state ! 0"
      example_state "''status''" example_state]
    example_parse_null
  by simp

section \<open>Connecting and disconnecting\<close>

text \<open>
  Claim C5, as the code has it: disconnect is idempotent, a second disconnect right after
  a first one changes nothing. On a monitor without a live transport handle it calls
  nothing of the transport, and still resets the state: \<open>connected\<close> becomes false, the log
  and the host are emptied, and the topic becomes \<open>mqtt/status\<close>.
\<close>

theorem disconnect_idempotent:
  "resetConnection (resetConnection st) = resetConnection st \<and>
   (clientRef st = None \<longrightarrow>
      resetConnection st =
        st\<lparr>connected := False, statusLog := [], ip := [], topic := ''mqtt/status''\<rparr>)"
  by (simp add: resetConnection_def Let_def emit_def split: option.splits)

theorem disconnect_idempotent_witness:
  "clientRef init = None \<and>
   resetConnection init =
     init\<lparr>connected := False, statusLog := [], ip := [], topic := ''mqtt/status''\<rparr> \<and>
   resetConnection (resetConnection init) = resetConnection init"
proof -
  have h: "clientRef init = None" by (simp add: init_def)
  show ?thesis using disconnect_idempotent [of init] h by blast
qed

text \<open>
  Claim C5 as the specification states it (disconnect without a live handle changes
  nothing) fails: before any connection, with a host typed into the field, disconnect
  empties the host and replaces the topic.
\<close>

theorem disconnect_noop_counterexample:
  "clientRef (step example_runtime (ChangeIp ''10.0.0.5'') init) = None \<and>
   ip (step example_runtime (ChangeIp ''10.0.0.5'') init) = ''10.0.0.5'' \<and>
   ip (resetConnection (step example_runtime (ChangeIp ''10.0.0.5'') init)) = [] \<and>
   topic (step example_runtime (ChangeIp ''10.0.0.5'') init) = ''status'' \<and>
   topic (resetConnection (step example_runtime (ChangeIp ''10.0.0.5'') init)) =
     ''mqtt/status''"
  by (simp add: init_def resetConnection_def Let_def)

text \<open>
  Claim C6: in every state whose host or topic is empty, connect raises the alert asking
  for both fields, returns, and does nothing else: no transport connection is made, and
  connection state, log, host, topic and client handle are unchanged.
\<close>

theorem connect_missing_config:
  "ip st = [] \<or> topic st = [] \<Longrightarrow>
   connectToMQTT rt st =
     Some (st\<lparr>effects := effects st @
       [Alert_alert ''Error'' ''Please enter both IP address and topic'']\<rparr>)"
  by (auto simp add: connectToMQTT_def emit_def)

theorem connect_missing_config_witness:
  "(ip init = [] \<or> topic init = []) \<and>
   connectToMQTT example_runtime init =
     Some (init\<lparr>effects := effects init @
       [Alert_alert ''Error'' ''Please enter both IP address and topic'']\<rparr>)"
  using connect_missing_config [of init example_runtime]
  by (simp add: init_def)

text \<open>
  Claim C10: after any call to disconnect the topic is \<open>mqtt/status\<close>, which is not the
  initial topic \<open>status\<close>; so disconnect never brings the monitor back to its initial
  state.
\<close>

theorem disconnect_topic_not_initial:
  "topic (resetConnection st) = ''mqtt/status'' \<and> topic init = ''status'' \<and>
   topic (resetConnection st) \<noteq> topic init \<and> resetConnection st \<noteq> init"
proof -
  have t: "topic (resetConnection st) = ''mqtt/status''"
    by (simp add: resetConnection_fields)
  have i: "topic init = ''status''"
    by (simp add: init_def)
  from t i have "topic (resetConnection st) \<noteq> topic init" by simp
  then show ?thesis using t i by auto
qed

text \<open>
  Claim C8: the log only grows under every callback of the transport (connect, subscribe
  result, message, error, close), and under every other event except disconnect: the log
  before the event is a prefix of the log after it. Disconnect alone empties it.
\<close>

theorem log_append_only:
  "(e \<noteq> PressDisconnect \<longrightarrow> prefix (statusLog st) (statusLog (step rt e st))) \<and>
   statusLog (step rt PressDisconnect st) = []"
proof (cases e)
  case (ClientMessage i tp msg)
  then show ?thesis by (simp add: on_message_log resetConnection_fields)
next
  case PressConnect
  then show ?thesis
    by (cases "connectToMQTT rt st") (simp_all add: connectToMQTT_log resetConnection_fields)
qed (simp_all add: resetConnection_fields permission_result_def on_connect_def
    on_subscribed_def on_error_def on_close_def Let_def emit_fields log_fields
    split: option.splits)

theorem log_append_only_witness:
  "ClientClose 0 \<noteq> PressDisconnect \<and>
   prefix (statusLog example_state)
     (statusLog (step example_runtime (ClientClose 0) example_state)) \<and>
   statusLog (step example_runtime PressDisconnect example_state) = []"
  using log_append_only [of "ClientClose 0" example_state example_runtime]
  by simp

text \<open>
  Claim C7: from every reachable state, disconnect followed by connect with a new host
  and topic (both not empty) leaves an empty log, so no entry from before the disconnect
  remains. Where \<open>mqtt.connect\<close> returns a client for the new host, the old client, if
  any, has been ended and one transport connection is opened, to the new host; every
  subscribe request the new client ever issues is for the new topic, and its connect
  callback issues one.
\<close>

theorem reconnect_fresh_log_new_topic:
  assumes "h \<noteq> []" and "t \<noteq> []"
    and "st = run rt es init"
    and "st' = run rt [PressDisconnect, ChangeIp h, ChangeTopic t, PressConnect] st"
  shows "statusLog st' = [] \<and>
     (mqtt_connect_returns rt (''ws://'' @ h @ '':9001/mqtt'') \<longrightarrow>
        clientRef st' = Some (length (clients st)) \<and>
        effects st' =
          effects st @ (case clientRef st of Some i \<Rightarrow> [ClientEnd i] | None \<Rightarrow> []) @
            [MqttConnect (''ws://'' @ h @ '':9001/mqtt'')] \<and>
        (\<forall>es' tp. Subscribe (length (clients st)) tp \<in> set (effects (run rt es' st'))
           \<longrightarrow> tp = t) \<and>
        Subscribe (length (clients st)) t \<in>
          set (effects (step rt (ClientConnect (length (clients st))) st')))"
proof -
  let ?n = "length (clients st)"
  let ?url = "''ws://'' @ h @ '':9001/mqtt''"
  let ?c = "\<lparr>c_brokerUrl = ?url, c_topic = t, c_permissionGranted = permissionGranted st\<rparr>"
  let ?s = "(resetConnection st)\<lparr>ip := h, topic := t\<rparr>"
  have st'_eq: "st' = (case connectToMQTT rt ?s of None \<Rightarrow> ?s | Some s' \<Rightarrow> s')"
    using assms(4) by (simp add: resetConnection_fields)
  have lg: "statusLog st' = []"
  proof (cases "connectToMQTT rt ?s")
    case None
    then show ?thesis unfolding st'_eq by (simp add: resetConnection_fields)
  next
    case (Some s')
    from connectToMQTT_log [OF Some] Some show ?thesis
      unfolding st'_eq by (simp add: resetConnection_fields)
  qed
  have ok: "subscribes_ok st'"
    unfolding assms(3,4) by (intro run_subscribes_ok init_subscribes_ok)
  have main: "clientRef st' = Some ?n \<and>
      effects st' =
        effects st @ (case clientRef st of Some i \<Rightarrow> [ClientEnd i] | None \<Rightarrow> []) @
          [MqttConnect ?url] \<and>
      (\<forall>es' tp. Subscribe ?n tp \<in> set (effects (run rt es' st')) \<longrightarrow> tp = t) \<and>
      Subscribe ?n t \<in> set (effects (step rt (ClientConnect ?n) st'))"
    if acc: "mqtt_connect_returns rt ?url"
  proof -
    have conn: "connectToMQTT rt ?s =
        Some ((emit (MqttConnect ?url) ?s)\<lparr>clientRef := Some ?n, clients := clients st @ [?c]\<rparr>)"
      using assms(1,2) acc
      by (simp add: connectToMQTT_def Let_def resetConnection_clients resetConnection_fields)
    have st'_new: "st' =
        (emit (MqttConnect ?url) ?s)\<lparr>clientRef := Some ?n, clients := clients st @ [?c]\<rparr>"
      unfolding st'_eq conn by simp
    have cr: "clientRef st' = Some ?n"
      unfolding st'_new by simp
    have cl: "clients st' = clients st @ [?c]"
      unfolding st'_new by simp
    have ef: "effects st' =
        effects st @ (case clientRef st of Some i \<Rightarrow> [ClientEnd i] | None \<Rightarrow> []) @
          [MqttConnect ?url]"
      unfolding st'_new by (simp add: emit_def resetConnection_fields)
    have never: "tp = t"
      if sub: "Subscribe ?n tp \<in> set (effects (run rt es' st'))" for es' tp
    proof -
      have "subscribes_ok (run rt es' st')" using ok by (rule run_subscribes_ok)
      from subscribes_okD [OF this sub]
      have tp: "c_topic (clients (run rt es' st') ! ?n) = tp" by simp
      have "prefix (clients st') (clients (run rt es' st'))" by (rule run_clients)
      moreover have "?n < length (clients st')" by (simp add: cl)
      ultimately have "clients (run rt es' st') ! ?n = clients st' ! ?n"
        by (rule prefix_nth)
      also have "\<dots> = ?c" by (simp add: cl)
      finally show ?thesis using tp by simp
    qed
    have once: "Subscribe ?n t \<in> set (effects (step rt (ClientConnect ?n) st'))"
      by (simp add: cl on_connect_def emit_fields)
    from cr ef never once show ?thesis by blast
  qed
  from lg main show ?thesis by blast
qed

theorem reconnect_fresh_log_new_topic_witness:
  "''10.0.0.6'' \<noteq> [] \<and> ''pumps'' \<noteq> [] \<and>
   mqtt_connect_returns example_runtime (''ws://'' @ ''10.0.0.6'' @ '':9001/mqtt'') \<and>
   statusLog example_state \<noteq> [] \<and>
   statusLog (run example_runtime
     [PressDisconnect, ChangeIp ''10.0.0.6'', ChangeTopic ''pumps'', PressConnect]
     example_state) = [] \<and>
   clientRef (run example_runtime
     [PressDisconnect, ChangeIp ''10.0.0.6'', ChangeTopic ''pumps'', PressConnect]
     example_state) = Some 1 \<and>
   Subscribe 1 ''pumps'' \<in> set (effects (step example_runtime (ClientConnect 1)
     (run example_runtime
       [PressDisconnect, ChangeIp ''10.0.0.6'', ChangeTopic ''pumps'', PressConnect]
       example_state)))"
proof -
  have acc: "mqtt_connect_returns example_runtime (''ws://'' @ ''10.0.0.6'' @ '':9001/mqtt'')"
    by (simp add: example_runtime_def example_brokers_def)
  have lg: "statusLog example_state \<noteq> []"
    by (simp add: example_state_eq)
  show ?thesis
    using reconnect_fresh_log_new_topic [of "''10.0.0.6''" "''pumps''" example_state
        example_runtime example_session, OF _ _ example_state_def refl] acc lg
    by (simp add: example_client)
qed

end
